theory Spec2Isabelle
  imports Main "HOL-Library.AList" "HOL-Library.Multiset" "HOL-Library.Code_Target_Nat"
begin

section \<open>Strings and numbers as the SDK sees them\<close>

text \<open>
  A JavaScript string is modelled as a \<open>string\<close> whose characters are code units
  below 256. \<open>String.prototype.trim\<close> removes white space and line terminators from
  both ends; in that range these are TAB, LF, VT, FF, CR, SPACE and NO-BREAK SPACE.
\<close>

definition is_ws :: "char \<Rightarrow> bool" where
  "is_ws c = (c = CHR 0x09 \<or> c = CHR 0x0A \<or> c = CHR 0x0B \<or> c = CHR 0x0C
              \<or> c = CHR 0x0D \<or> c = CHR 0x20 \<or> c = CHR 0xA0)"

definition trim :: "string \<Rightarrow> string" where
  "trim s = rev (dropWhile is_ws (rev (dropWhile is_ws s)))"

text \<open>
  \<open>!s || s.trim().length === 0\<close> for an argument that may be absent
  (\<open>undefined\<close> is \<open>None\<close>): absent, empty, or blank after trimming.
\<close>

definition missing_or_blank :: "string option \<Rightarrow> bool" where
  "missing_or_blank x = (case x of None \<Rightarrow> True | Some s \<Rightarrow> s = [] \<or> length (trim s) = 0)"

text \<open>Decimal rendering of a non-negative integer, as a template literal prints it.\<close>

definition digit_char :: "nat \<Rightarrow> char" where
  "digit_char d = char_of (48 + d)"

fun show_nat :: "nat \<Rightarrow> string" where
  "show_nat n = (if n < 10 then [digit_char n] else show_nat (n div 10) @ [digit_char (n mod 10)])"

declare show_nat.simps [simp del]

text \<open>Reading a decimal numeral back, the inverse of \<open>show_nat\<close>.\<close>

definition read_nat :: "string \<Rightarrow> nat" where
  "read_nat s = foldl (\<lambda>a c. 10 * a + (of_char c - 48)) 0 s"

section \<open>JSON values\<close>

text \<open>
  The value \<open>response.json()\<close> resolves to. A number is carried by the text that
  ECMAScript's number-to-string conversion gives for it (both zeros print as \<open>0\<close>).
  An object is an association list in property order; a lookup takes the first binding,
  and every object that \<open>JSON.parse\<close> builds has distinct keys.
  \<open>undefined\<close> is not a JSON value: a value that may be undefined is a \<open>json option\<close>.
\<close>

datatype json =
    JNull
  | JBool bool
  | JNum string
  | JStr string
  | JArr "json list"
  | JObj "(string \<times> json) list"

text \<open>
  Reading a property named \<open>k\<close> off a value that is neither \<open>null\<close> nor
  \<open>undefined\<close>, for the names the SDK reads (\<open>error\<close>, \<open>message\<close>,
  \<open>details\<close>, \<open>runId\<close>, \<open>id\<close>, ...): none of them is defined by a
  prototype, so only an own property of an object gives a value.
\<close>

fun get_field :: "string \<Rightarrow> json \<Rightarrow> json option" where
  "get_field k (JObj kvs) = map_of kvs k"
| "get_field k _ = None"

text \<open>JavaScript truthiness, as \<open>||\<close> tests it.\<close>

fun truthy :: "json option \<Rightarrow> bool" where
  "truthy None = False"
| "truthy (Some JNull) = False"
| "truthy (Some (JBool b)) = b"
| "truthy (Some (JNum r)) = (r \<noteq> ''0'')"
| "truthy (Some (JStr s)) = (s \<noteq> [])"
| "truthy (Some (JArr xs)) = True"
| "truthy (Some (JObj kvs)) = True"

text \<open>\<open>a || b\<close>: the left operand when it is truthy, the right one otherwise.\<close>

definition js_or :: "json option \<Rightarrow> json option \<Rightarrow> json option" where
  "js_or a b = (if truthy a then a else b)"

text \<open>
  \<open>ToString\<close>, which the \<open>Error\<close> constructor applies to its message. An array
  is joined with commas, \<open>null\<close> elements printing as the empty string. A plain object
  prints as \<open>[object Object]\<close> through \<open>Object.prototype.toString\<close>, unless
  it has an own property \<open>toString\<close>: that value is not callable, \<open>valueOf\<close>
  gives no primitive either, and the conversion throws a TypeError (\<open>None\<close>).
\<close>

fun ToString :: "json \<Rightarrow> string option"
  and join_elements :: "json list \<Rightarrow> string option" where
  "ToString JNull = Some ''null''"
| "ToString (JBool b) = Some (if b then ''true'' else ''false'')"
| "ToString (JNum r) = Some r"
| "ToString (JStr s) = Some s"
| "ToString (JArr xs) = join_elements xs"
| "ToString (JObj kvs) =
     (if ''toString'' \<in> set (map fst kvs) then None else Some ''[object Object]'')"
| "join_elements [] = Some []"
| "join_elements (x # xs) =
     (case (if x = JNull then Some [] else ToString x) of
        None \<Rightarrow> None
      | Some s \<Rightarrow>
          (if xs = [] then Some s
           else (case join_elements xs of None \<Rightarrow> None | Some t \<Rightarrow> Some (s @ '','' @ t))))"

text \<open>
  The own enumerable properties that an object spread \<open>{...v}\<close> copies:
  none for \<open>undefined\<close>, \<open>null\<close>, booleans and numbers; the indexed
  characters of a string; the indexed elements of an array; the properties of an object.
\<close>

fun own_props :: "json option \<Rightarrow> (string \<times> json) list" where
  "own_props (Some (JStr s)) = map (\<lambda>i. (show_nat i, JStr [s ! i])) [0..<length s]"
| "own_props (Some (JArr xs)) = map (\<lambda>i. (show_nat i, xs ! i)) [0..<length xs]"
| "own_props (Some (JObj kvs)) = AList.clearjunk kvs"
| "own_props _ = []"

text \<open>
  The order in which an object lists its own properties: first the keys that are array
  indices (the canonical decimal numerals below \<open>2^32 - 1\<close>) in ascending numeric
  order, then the other keys in the order of their creation.
\<close>

definition is_array_index :: "string \<Rightarrow> bool" where
  "is_array_index k = (show_nat (read_nat k) = k \<and> read_nat k < 4294967295)"

definition js_key_order :: "(string \<times> json) list \<Rightarrow> (string \<times> json) list" where
  "js_key_order kvs =
     sort_key (\<lambda>kv. read_nat (fst kv)) (filter (\<lambda>kv. is_array_index (fst kv)) kvs)
       @ filter (\<lambda>kv. \<not> is_array_index (fst kv)) kvs"

text \<open>
  \<open>{...base, ...v}\<close>: each copied property overwrites a property of the same name
  in place, or is created after the others; the resulting object lists its properties in
  the order above.
\<close>

definition spread_into :: "(string \<times> json) list \<Rightarrow> json option \<Rightarrow> (string \<times> json) list" where
  "spread_into base v = js_key_order (fold (\<lambda>(k, x). AList.update k x) (own_props v) base)"

section \<open>Error model (errors.ts)\<close>

datatype CobblErrorCode =
    INVALID_CONFIG
  | INVALID_REQUEST
  | UNAUTHORIZED
  | FORBIDDEN
  | NOT_FOUND
  | ARCHIVED
  | RATE_LIMIT_EXCEEDED
  | SERVER_ERROR
  | NETWORK_ERROR
  | API_ERROR

record CobblError =
  message :: string
  code :: CobblErrorCode
  details :: "json option"

text \<open>
  What a \<open>catch\<close> clause can tell about a thrown value: it is a \<open>CobblError\<close>,
  or another \<open>Error\<close> with its message, or not an \<open>Error\<close> at all.
\<close>

datatype thrown =
    Cobbl CobblError
  | StdError string
  | NonError

text \<open>
  The messages of the TypeErrors of the engine, in V8's wording: reading property \<open>p\<close>
  of \<open>v\<close>, where \<open>v\<close> is \<open>null\<close> or \<open>undefined\<close>, and a failed \<open>ToString\<close>.
\<close>

definition cannot_read :: "string \<Rightarrow> string \<Rightarrow> string" where
  "cannot_read v p =
     ''Cannot read properties of '' @ v @ '' (reading '' @ [CHR 0x27] @ p @ [CHR 0x27] @ '')''"

definition cannot_convert :: string where
  "cannot_convert = ''Cannot convert object to primitive value''"

text \<open>
  \<open>new CobblError(message, code, details)\<close>: \<open>super(message)\<close> converts a
  message that is not \<open>undefined\<close> to a string, which can throw; with no message
  the error inherits the empty message of \<open>Error.prototype\<close>.
\<close>

definition new_CobblError ::
  "json option \<Rightarrow> CobblErrorCode \<Rightarrow> json option \<Rightarrow> thrown + CobblError" where
  "new_CobblError msg c d =
     (case msg of
        None \<Rightarrow> Inr \<lparr>message = [], code = c, details = d\<rparr>
      | Some v \<Rightarrow>
          (case ToString v of
             None \<Rightarrow> Inl (StdError cannot_convert)
           | Some m \<Rightarrow> Inr \<lparr>message = m, code = c, details = d\<rparr>))"

text \<open>\<open>throw new CobblError(...)\<close>: whatever happens, something is thrown.\<close>

definition throw_new_CobblError ::
  "json option \<Rightarrow> CobblErrorCode \<Rightarrow> json option \<Rightarrow> thrown + 'a" where
  "throw_new_CobblError msg c d =
     (case new_CobblError msg c d of Inl e \<Rightarrow> Inl e | Inr err \<Rightarrow> Inl (Cobbl err))"

text \<open>
  The part of a \<open>Response\<close> that the SDK reads. \<open>json_result\<close> is the outcome of
  \<open>response.json()\<close>: the parsed body, or the value it throws.
\<close>

record response =
  ok :: bool
  status :: nat
  statusText :: string
  json_result :: "thrown + json"

definition handleErrorResponse :: "response \<Rightarrow> thrown + unit" where
  "handleErrorResponse response =
     (case json_result response of
        Inl _ \<Rightarrow>
          throw_new_CobblError
            (Some (JStr (''HTTP '' @ show_nat (status response) @ '': '' @ statusText response)))
            API_ERROR
            (Some (JObj [(''status'', JNum (show_nat (status response)))]))
      | Inr errorData \<Rightarrow>
          (if errorData = JNull then Inl (StdError (cannot_read ''null'' ''error''))
           else
             let message =
                   js_or (js_or (get_field ''error'' errorData) (get_field ''message'' errorData))
                     (Some (JStr ''Unknown error''));
                 details = get_field ''details'' errorData
             in
               if status response = 400 then throw_new_CobblError message INVALID_REQUEST details
               else if status response = 401 then throw_new_CobblError message UNAUTHORIZED details
               else if status response = 403 then throw_new_CobblError message FORBIDDEN details
               else if status response = 404 then throw_new_CobblError message NOT_FOUND details
               else if status response = 410 then throw_new_CobblError message ARCHIVED details
               else if status response = 429
                    then throw_new_CobblError message RATE_LIMIT_EXCEEDED details
               else if status response = 500 \<or> status response = 502
                       \<or> status response = 503 \<or> status response = 504
                    then throw_new_CobblError message SERVER_ERROR details
               else throw_new_CobblError message API_ERROR
                      (Some (JObj (spread_into
                         [(''status'', JNum (show_nat (status response)))] details)))))"

section \<open>Validators (validation.ts)\<close>

text \<open>
  The request objects. An optional property that is absent is \<open>None\<close>. The
  update request has \<open>helpful\<close> and \<open>userFeedback\<close>; the create request adds
  \<open>runId\<close>, which the validator checks for presence although its type requires it.
\<close>

record UpdateFeedbackRequest =
  helpful :: "string option"
  userFeedback :: "string option"

record CreateFeedbackRequest = UpdateFeedbackRequest +
  runId :: "string option"

definition VALID_HELPFUL_VALUES :: "string list" where
  "VALID_HELPFUL_VALUES = [''helpful'', ''not_helpful'']"

definition validateCreateFeedback :: "CreateFeedbackRequest \<Rightarrow> string option" where
  \<open>validateCreateFeedback feedback =
     (if missing_or_blank (runId feedback) then Some ''runId is required''
      else if (case helpful feedback of None \<Rightarrow> False
               | Some h \<Rightarrow> h \<notin> set VALID_HELPFUL_VALUES)
           then Some ''helpful must be "helpful" or "not_helpful"''
      else if (case userFeedback feedback of None \<Rightarrow> False
               | Some u \<Rightarrow> length (trim u) = 0)
           then Some ''userFeedback cannot be empty''
      else if helpful feedback = None \<and> userFeedback feedback = None
           then Some ''At least one of helpful or userFeedback is required''
      else None)\<close>

definition validateUpdateFeedback :: "UpdateFeedbackRequest \<Rightarrow> string option" where
  \<open>validateUpdateFeedback update =
     (if (case helpful update of None \<Rightarrow> False
          | Some h \<Rightarrow> h \<notin> set VALID_HELPFUL_VALUES)
      then Some ''helpful must be "helpful" or "not_helpful"''
      else if (case userFeedback update of None \<Rightarrow> False
               | Some u \<Rightarrow> length (trim u) = 0)
           then Some ''userFeedback cannot be empty''
      else if helpful update = None \<and> userFeedback update = None
           then Some ''At least one of helpful or userFeedback is required''
      else None)\<close>

section \<open>JSON.stringify\<close>

definition hex_digit :: "nat \<Rightarrow> char" where
  "hex_digit d = (if d < 10 then char_of (48 + d) else char_of (87 + d))"

text \<open>
  The escapes of a quoted JSON string: the quote, the backslash, the five short
  escapes, and \<open>\u00xx\<close> for the other control characters.
\<close>

definition escape_char :: "char \<Rightarrow> string" where
  "escape_char c =
     (if c = CHR 0x22 then [CHR 0x5C, CHR 0x22]
      else if c = CHR 0x5C then [CHR 0x5C, CHR 0x5C]
      else if c = CHR 0x08 then [CHR 0x5C, CHR ''b'']
      else if c = CHR 0x0C then [CHR 0x5C, CHR ''f'']
      else if c = CHR 0x0A then [CHR 0x5C, CHR ''n'']
      else if c = CHR 0x0D then [CHR 0x5C, CHR ''r'']
      else if c = CHR 0x09 then [CHR 0x5C, CHR ''t'']
      else if (of_char c :: nat) < 32
           then [CHR 0x5C, CHR ''u'', CHR ''0'', CHR ''0'',
                 hex_digit (of_char c div 16), hex_digit (of_char c mod 16)]
      else [c])"

definition JSON_quote :: "string \<Rightarrow> string" where
  "JSON_quote s = [CHR 0x22] @ concat (map escape_char s) @ [CHR 0x22]"

text \<open>
  \<open>JSON.stringify\<close> of a JSON value, without indentation. A number that is not
  finite prints as \<open>null\<close>.
\<close>

fun JSON_stringify :: "json \<Rightarrow> string"
  and stringify_elements :: "json list \<Rightarrow> string"
  and stringify_members :: "(string \<times> json) list \<Rightarrow> string" where
  "JSON_stringify JNull = ''null''"
| "JSON_stringify (JBool b) = (if b then ''true'' else ''false'')"
| "JSON_stringify (JNum r) =
     (if r = ''Infinity'' \<or> r = ''-Infinity'' \<or> r = ''NaN'' then ''null'' else r)"
| "JSON_stringify (JStr s) = JSON_quote s"
| "JSON_stringify (JArr xs) = ''['' @ stringify_elements xs @ '']''"
| "JSON_stringify (JObj kvs) = ''{'' @ stringify_members kvs @ ''}''"
| "stringify_elements [] = []"
| "stringify_elements (x # xs) =
     JSON_stringify x @ (if xs = [] then [] else '','' @ stringify_elements xs)"
| "stringify_members [] = []"
| "stringify_members (kv # kvs) =
     JSON_quote (fst kv) @ '':'' @ JSON_stringify (snd kv)
       @ (if kvs = [] then [] else '','' @ stringify_members kvs)"

text \<open>
  An object literal whose property values may be \<open>undefined\<close>, in property order.
  \<open>JSON.stringify\<close> leaves out the properties whose value is \<open>undefined\<close>.
\<close>

type_synonym js_object = "(string \<times> json option) list"

definition defined_members :: "js_object \<Rightarrow> (string \<times> json) list" where
  "defined_members obj = List.map_filter (\<lambda>(k, v). map_option (Pair k) v) obj"

definition JSON_stringify_object :: "js_object \<Rightarrow> string" where
  "JSON_stringify_object obj = JSON_stringify (JObj (defined_members obj))"

section \<open>Request executor and clients (admin.ts, public.ts)\<close>

text \<open>
  The options handed to \<open>fetch\<close> (\<open>http_method\<close> is the property
  \<open>method\<close>). The abort signal and its timer are left out:
  an abort shows as \<open>fetch\<close> rejecting.
\<close>

record RequestInit =
  http_method :: string
  body :: string
  headers :: "(string \<times> string) list option"

text \<open>
  The network: \<open>fetch\<close> either rejects with a thrown value or resolves to a response.
  The calls made so far are recorded in order.
\<close>

type_synonym fetch_fn = "string \<Rightarrow> RequestInit \<Rightarrow> thrown + response"

type_synonym net = "(string \<times> RequestInit) list"

definition spread_headers ::
  "(string \<times> string) list \<Rightarrow> (string \<times> string) list option \<Rightarrow> (string \<times> string) list" where
  "spread_headers base hs =
     (case hs of None \<Rightarrow> base | Some l \<Rightarrow> fold (\<lambda>(k, v). AList.update k v) l base)"





definition default_baseUrl :: string where
  "default_baseUrl = ''https://api.cobbl.ai''"

text \<open>\<open>config.baseUrl?.trim() || 'https://api.cobbl.ai'\<close>\<close>

definition baseUrl_or_default :: "string option \<Rightarrow> string" where
  "baseUrl_or_default b =
     (case b of None \<Rightarrow> default_baseUrl
      | Some u \<Rightarrow> if trim u \<noteq> [] then trim u else default_baseUrl)"

subsection \<open>Admin client\<close>

record CobblPublicConfig =
  baseUrl :: "string option"


record CobblAdminClient =
  this_apiKey :: string
  this_baseUrl :: string


definition admin_makeRequest ::
  "fetch_fn \<Rightarrow> CobblAdminClient \<Rightarrow> string \<Rightarrow> RequestInit \<Rightarrow> net
     \<Rightarrow> (thrown + response) \<times> net" where
  "admin_makeRequest fetch this path options net =
     (let url = this_baseUrl this @ path;
          init = options\<lparr>headers :=
                   Some (spread_headers
                     [(''Content-Type'', ''application/json''),
                      (''Authorization'', ''Bearer '' @ this_apiKey this)]
                     (headers options))\<rparr>
      in (fetch url init, net @ [(url, init)]))"

text \<open>
  The \<open>try\<close> block of \<open>runPrompt\<close>, entered with a slug that is present. The
  input variables are taken to be a JSON value, so that serializing them does not throw.
\<close>

definition runPrompt_try ::
  "fetch_fn \<Rightarrow> CobblAdminClient \<Rightarrow> string \<Rightarrow> json \<Rightarrow> net \<Rightarrow> (thrown + js_object) \<times> net" where
  "runPrompt_try fetch this promptSlug input net =
     (case admin_makeRequest fetch this ''/admin/v1/prompt/run''
             \<lparr>http_method = ''POST'',
              body = JSON_stringify_object
                       [(''promptSlug'', Some (JStr (trim promptSlug))), (''input'', Some input)],
              headers = None\<rparr> net of
        (Inl e, net') \<Rightarrow> (Inl e, net')
      | (Inr response, net') \<Rightarrow>
          (case (if \<not> ok response then handleErrorResponse response else Inr ()) of
             Inl e \<Rightarrow> (Inl e, net')
           | Inr _ \<Rightarrow>
               (case json_result response of
                  Inl e \<Rightarrow> (Inl e, net')
                | Inr data \<Rightarrow>
                    if data = JNull then (Inl (StdError (cannot_read ''null'' ''runId'')), net')
                    else (Inr [(''runId'', get_field ''runId'' data),
                               (''output'', get_field ''output'' data),
                               (''tokenUsage'', get_field ''tokenUsage'' data),
                               (''renderedPrompt'', get_field ''renderedPrompt'' data),
                               (''promptVersion'', get_field ''promptVersion'' data)], net'))))"

definition runPrompt ::
  "fetch_fn \<Rightarrow> CobblAdminClient \<Rightarrow> string option \<Rightarrow> json \<Rightarrow> net
     \<Rightarrow> (thrown + js_object) \<times> net" where
  "runPrompt fetch this promptSlug input net =
     (case promptSlug of
        None \<Rightarrow>
          (throw_new_CobblError (Some (JStr ''promptSlug is required'')) INVALID_REQUEST None, net)
      | Some slug \<Rightarrow>
          if slug = [] \<or> length (trim slug) = 0
          then (throw_new_CobblError (Some (JStr ''promptSlug is required'')) INVALID_REQUEST None,
                net)
          else
            (case runPrompt_try fetch this slug input net of
               (Inr result, net') \<Rightarrow> (Inr result, net')
             | (Inl error, net') \<Rightarrow>
                 (case error of
                    Cobbl c \<Rightarrow> (Inl (Cobbl c), net')
                  | StdError m \<Rightarrow>
                      (throw_new_CobblError (Some (JStr (''Failed to run prompt: '' @ m)))
                         NETWORK_ERROR None, net')
                  | NonError \<Rightarrow>
                      (throw_new_CobblError (Some (JStr ''Failed to run prompt: Unknown error''))
                         NETWORK_ERROR None, net'))))"

subsection \<open>Public client\<close>

record CobblPublicClient =
  public_baseUrl :: string

definition CobblPublicClient_constructor :: "CobblPublicConfig \<Rightarrow> CobblPublicClient" where
  "CobblPublicClient_constructor config = \<lparr>public_baseUrl = baseUrl_or_default (baseUrl config)\<rparr>"

definition public_makeRequest ::
  "fetch_fn \<Rightarrow> CobblPublicClient \<Rightarrow> string \<Rightarrow> RequestInit \<Rightarrow> net
     \<Rightarrow> (thrown + response) \<times> net" where
  "public_makeRequest fetch this path options net =
     (let url = public_baseUrl this @ path;
          init = options\<lparr>headers :=
                   Some (spread_headers [(''Content-Type'', ''application/json'')]
                     (headers options))\<rparr>
      in (fetch url init, net @ [(url, init)]))"

text \<open>
  What both feedback methods do with the outcome of the request: classify a failure
  response, else read \<open>id\<close> and \<open>message\<close> off the parsed body.
\<close>

definition feedback_response ::
  "(thrown + response) \<times> net \<Rightarrow> (thrown + js_object) \<times> net" where
  "feedback_response r =
     (case r of
        (Inl e, net') \<Rightarrow> (Inl e, net')
      | (Inr response, net') \<Rightarrow>
          (case (if \<not> ok response then handleErrorResponse response else Inr ()) of
             Inl e \<Rightarrow> (Inl e, net')
           | Inr _ \<Rightarrow>
               (case json_result response of
                  Inl e \<Rightarrow> (Inl e, net')
                | Inr data \<Rightarrow>
                    if data = JNull then (Inl (StdError (cannot_read ''null'' ''id'')), net')
                    else (Inr [(''id'', get_field ''id'' data),
                               (''message'', get_field ''message'' data)], net'))))"

text \<open>The \<open>try\<close> block of \<open>createFeedback\<close>.\<close>

definition createFeedback_try ::
  "fetch_fn \<Rightarrow> CobblPublicClient \<Rightarrow> CreateFeedbackRequest \<Rightarrow> net
     \<Rightarrow> (thrown + js_object) \<times> net" where
  "createFeedback_try fetch this feedback net =
     (case runId feedback of
        None \<Rightarrow> (Inl (StdError (cannot_read ''undefined'' ''trim'')), net)
      | Some r \<Rightarrow>
          feedback_response
            (public_makeRequest fetch this ''/public/v1/feedback''
               \<lparr>http_method = ''POST'',
                body = JSON_stringify_object
                         [(''runId'', Some (JStr (trim r))),
                          (''helpful'', map_option JStr (helpful feedback)),
                          (''userFeedback'', map_option (\<lambda>u. JStr (trim u)) (userFeedback feedback))],
                headers = None\<rparr> net))"

definition createFeedback ::
  "fetch_fn \<Rightarrow> CobblPublicClient \<Rightarrow> CreateFeedbackRequest \<Rightarrow> net
     \<Rightarrow> (thrown + js_object) \<times> net" where
  "createFeedback fetch this feedback net =
     (let validationError = validateCreateFeedback feedback in
      if (case validationError of None \<Rightarrow> False | Some reason \<Rightarrow> reason \<noteq> [])
      then (throw_new_CobblError (map_option JStr validationError) INVALID_REQUEST None, net)
      else
        (case createFeedback_try fetch this feedback net of
           (Inr result, net') \<Rightarrow> (Inr result, net')
         | (Inl error, net') \<Rightarrow>
             (case error of
                Cobbl c \<Rightarrow> (Inl (Cobbl c), net')
              | StdError m \<Rightarrow>
                  (throw_new_CobblError (Some (JStr (''Failed to create feedback: '' @ m)))
                     NETWORK_ERROR None, net')
              | NonError \<Rightarrow>
                  (throw_new_CobblError (Some (JStr ''Failed to create feedback: Unknown error''))
                     NETWORK_ERROR None, net'))))"

text \<open>The \<open>try\<close> block of \<open>updateFeedback\<close>, entered with an id that is present.\<close>

definition updateFeedback_try ::
  "fetch_fn \<Rightarrow> CobblPublicClient \<Rightarrow> string \<Rightarrow> UpdateFeedbackRequest \<Rightarrow> net
     \<Rightarrow> (thrown + js_object) \<times> net" where
  "updateFeedback_try fetch this id' update net =
     feedback_response
       (public_makeRequest fetch this (''/public/v1/feedback/'' @ trim id')
          \<lparr>http_method = ''PATCH'',
           body = JSON_stringify_object
                    [(''helpful'', map_option JStr (helpful update)),
                     (''userFeedback'', map_option (\<lambda>u. JStr (trim u)) (userFeedback update))],
           headers = None\<rparr> net)"

definition updateFeedback ::
  "fetch_fn \<Rightarrow> CobblPublicClient \<Rightarrow> string option \<Rightarrow> UpdateFeedbackRequest \<Rightarrow> net
     \<Rightarrow> (thrown + js_object) \<times> net" where
  "updateFeedback fetch this id' update net =
     (case id' of
        None \<Rightarrow> (throw_new_CobblError (Some (JStr ''id is required'')) INVALID_REQUEST None, net)
      | Some i \<Rightarrow>
          if i = [] \<or> length (trim i) = 0
          then (throw_new_CobblError (Some (JStr ''id is required'')) INVALID_REQUEST None, net)
          else
            (let validationError = validateUpdateFeedback update in
             if (case validationError of None \<Rightarrow> False | Some reason \<Rightarrow> reason \<noteq> [])
             then (throw_new_CobblError (map_option JStr validationError) INVALID_REQUEST None,
                   net)
             else
               (case updateFeedback_try fetch this i update net of
                  (Inr result, net') \<Rightarrow> (Inr result, net')
                | (Inl error, net') \<Rightarrow>
                    (case error of
                       Cobbl c \<Rightarrow> (Inl (Cobbl c), net')
                     | StdError m \<Rightarrow>
                         (throw_new_CobblError
                            (Some (JStr (''Failed to update feedback: '' @ m)))
                            NETWORK_ERROR None, net')
                     | NonError \<Rightarrow>
                         (throw_new_CobblError
                            (Some (JStr ''Failed to update feedback: Unknown error''))
                            NETWORK_ERROR None, net')))))"

section \<open>Auxiliary definitions for the statements\<close>

text \<open>
  The message the classifier selects from a parsed body: the \<open>error\<close> property when it
  is truthy, else the \<open>message\<close> property when it is truthy, else the literal.
\<close>

definition first_truthy_message :: "json \<Rightarrow> json" where
  "first_truthy_message v =
     (if truthy (get_field ''error'' v) then the (get_field ''error'' v)
      else if truthy (get_field ''message'' v) then the (get_field ''message'' v)
      else JStr ''Unknown error'')"

text \<open>The status table of the specification (section 4.1).\<close>

definition code_for_status :: "nat \<Rightarrow> CobblErrorCode" where
  "code_for_status s =
     (if s = 400 then INVALID_REQUEST
      else if s = 401 then UNAUTHORIZED
      else if s = 403 then FORBIDDEN
      else if s = 404 then NOT_FOUND
      else if s = 410 then ARCHIVED
      else if s = 429 then RATE_LIMIT_EXCEEDED
      else if s \<in> {500, 502, 503, 504} then SERVER_ERROR
      else API_ERROR)"

definition mapped_statuses :: "nat set" where
  "mapped_statuses = {400, 401, 403, 404, 410, 429, 500, 502, 503, 504}"

text \<open>
  Following the specification's words: the message is the value of the \<open>error\<close>
  property if that property is present, else the value of \<open>message\<close> if present, else
  the literal.
\<close>

definition present_message :: "json \<Rightarrow> json" where
  "present_message v =
     (case get_field ''error'' v of
        Some x \<Rightarrow> x
      | None \<Rightarrow> (case get_field ''message'' v of Some y \<Rightarrow> y | None \<Rightarrow> JStr ''Unknown error''))"

text \<open>
  Following the specification's words: the server-supplied details merged with
  \<open>{status}\<close>, the status of the response always included.
\<close>

definition details_with_status :: "nat \<Rightarrow> json option \<Rightarrow> (string \<times> json) list" where
  "details_with_status s d = AList.update ''status'' (JNum (show_nat s)) (own_props d)"

text \<open>
  Following the specification's words (transport-failure wrapping): a typed error is
  re-raised unchanged; anything else is wrapped as \<open>NETWORK_ERROR\<close> with the message
  \<open>Failed to {operation}: \<close> followed by the message of the underlying error, or by
  \<open>Unknown error\<close> when the thrown value is not a standard error.
\<close>

definition wrap_transport_failure :: "string \<Rightarrow> thrown \<Rightarrow> thrown" where
  "wrap_transport_failure operation e =
     (case e of
        Cobbl c \<Rightarrow> Cobbl c
      | StdError m \<Rightarrow>
          Cobbl \<lparr>message = ''Failed to '' @ operation @ '': '' @ m,
                 code = NETWORK_ERROR, details = None\<rparr>
      | NonError \<Rightarrow>
          Cobbl \<lparr>message = ''Failed to '' @ operation @ '': Unknown error'',
                 code = NETWORK_ERROR, details = None\<rparr>)"

section \<open>Basic facts\<close>

lemma trim_Nil [simp]: "trim [] = []"
  by (simp add: trim_def)

lemma missing_or_blank_iff:
  "missing_or_blank x = (case x of None \<Rightarrow> True | Some s \<Rightarrow> trim s = [])"
  by (auto simp: missing_or_blank_def split: option.splits)

lemma member_valid_helpful:
  "(h \<in> set VALID_HELPFUL_VALUES) = (h = ''helpful'' \<or> h = ''not_helpful'')"
  by (auto simp: VALID_HELPFUL_VALUES_def)

lemma of_char_digit_char: "d < 10 \<Longrightarrow> (of_char (digit_char d) :: nat) = 48 + d"
  by (simp add: digit_char_def)

lemma read_nat_show_nat: "read_nat (show_nat n) = n"
proof (induction n rule: show_nat.induct)
  case (1 n)
  show ?case
  proof (cases "n < 10")
    case True
    then show ?thesis
      by (simp add: show_nat.simps [of n] read_nat_def of_char_digit_char)
  next
    case False
    with 1 have "read_nat (show_nat (n div 10)) = n div 10" by simp
    with False show ?thesis
      by (simp add: show_nat.simps [of n] read_nat_def of_char_digit_char)
  qed
qed

lemma inj_show_nat: "inj show_nat"
  by (rule inj_on_inverseI [where g = read_nat]) (rule read_nat_show_nat)

lemma distinct_index_keys: "distinct (map (\<lambda>i. show_nat i) [0..<n])"
  by (simp add: distinct_map inj_show_nat inj_on_subset [OF inj_show_nat])

lemma distinct_own_props: "distinct (map fst (own_props d))"
proof (cases d)
  case None
  then show ?thesis by simp
next
  case (Some v)
  then show ?thesis
    using distinct_index_keys by (cases v) (simp_all add: comp_def)
qed

lemma map_add_upd_left_absent:
  "n k = None \<Longrightarrow> m(k \<mapsto> x) ++ n = (m ++ n)(k \<mapsto> x)"
  by (auto simp: map_add_def fun_eq_iff split: option.splits)

lemma map_of_fold_update:
  "distinct (map fst ps) \<Longrightarrow>
   map_of (fold (\<lambda>(k, x). AList.update k x) ps al) = map_of al ++ map_of ps"
proof (induction ps arbitrary: al)
  case Nil
  then show ?case by simp
next
  case (Cons p ps)
  obtain k x where p: "p = (k, x)" by (cases p)
  from Cons.prems p have notin: "map_of ps k = None"
    by (simp add: map_of_eq_None_iff)
  from Cons.prems have d: "distinct (map fst ps)" by simp
  have "map_of (fold (\<lambda>(k, x). AList.update k x) (p # ps) al)
          = map_of (fold (\<lambda>(k, x). AList.update k x) ps (AList.update k x al))"
    by (simp add: p)
  also have "\<dots> = map_of (AList.update k x al) ++ map_of ps"
    using d by (rule Cons.IH)
  also have "\<dots> = (map_of al)(k \<mapsto> x) ++ map_of ps"
    by (simp only: update_conv')
  also have "\<dots> = (map_of al ++ map_of ps)(k \<mapsto> x)"
    using notin by (rule map_add_upd_left_absent)
  also have "\<dots> = map_of al ++ map_of (p # ps)"
    by (simp add: p)
  finally show ?case .
qed

lemma distinct_fold_update:
  "distinct (map fst al) \<Longrightarrow> distinct (map fst (fold (\<lambda>(k, x). AList.update k x) ps al))"
proof (induction ps arbitrary: al)
  case Nil
  then show ?case by simp
next
  case (Cons p ps)
  obtain k x where p: "p = (k, x)" by (cases p)
  from Cons.prems have "distinct (map fst (AList.update k x al))"
    by (rule distinct_update)
  then have "distinct (map fst (fold (\<lambda>(k, x). AList.update k x) ps (AList.update k x al)))"
    by (rule Cons.IH)
  then show ?case by (simp add: p)
qed

text \<open>Reordering the properties of an object changes none of its lookups.\<close>

lemma mset_js_key_order: "mset (js_key_order kvs) = mset kvs"
  by (simp add: js_key_order_def)

lemma map_of_js_key_order:
  assumes "distinct (map fst kvs)"
  shows "map_of (js_key_order kvs) = map_of kvs"
proof -
  have "mset (map fst (js_key_order kvs)) = mset (map fst kvs)"
    by (simp add: mset_js_key_order)
  then have "distinct (map fst (js_key_order kvs)) = distinct (map fst kvs)"
    by (rule mset_eq_imp_distinct_iff)
  with assms have d: "distinct (map fst (js_key_order kvs))" by simp
  have "set (js_key_order kvs) = set kvs"
    using mset_js_key_order [of kvs] by (rule mset_eq_setD)
  with d assms show ?thesis
    by (simp add: map_of_inject_set)
qed

lemma map_of_spread_into:
  assumes "distinct (map fst base)"
  shows "map_of (spread_into base d) = map_of base ++ map_of (own_props d)"
proof -
  have "distinct (map fst (fold (\<lambda>(k, x). AList.update k x) (own_props d) base))"
    using assms by (rule distinct_fold_update)
  then have "map_of (spread_into base d)
               = map_of (fold (\<lambda>(k, x). AList.update k x) (own_props d) base)"
    unfolding spread_into_def by (rule map_of_js_key_order)
  also have "\<dots> = map_of base ++ map_of (own_props d)"
    by (rule map_of_fold_update) (rule distinct_own_props)
  finally show ?thesis .
qed

lemma spread_into_status_field:
  "spread_into [(''status'', JNum ''418'')] (Some (JObj [(''field'', JStr ''x'')]))
     = [(''status'', JNum ''418''), (''field'', JStr ''x'')]"
  by code_simp

lemma spread_into_status_status:
  "spread_into [(''status'', JNum ''418'')] (Some (JObj [(''status'', JNum ''999'')]))
     = [(''status'', JNum ''999'')]"
  by code_simp

lemma spread_into_status_undefined:
  "spread_into [(''status'', JNum ''418'')] None = [(''status'', JNum ''418'')]"
  by code_simp

lemma show_nat_500: "show_nat 500 = ''500''"
  by code_simp

section \<open>The error classifier\<close>

lemma show_nat_418: "show_nat 418 = ''418''"
  by code_simp

lemma truthy_Some_the: "truthy x \<Longrightarrow> x = Some (the x)"
  by (cases x) simp_all

lemma selected_message:
  "js_or (js_or (get_field ''error'' v) (get_field ''message'' v)) (Some (JStr ''Unknown error''))
     = Some (first_truthy_message v)"
  using truthy_Some_the [of "get_field ''error'' v"] truthy_Some_the [of "get_field ''message'' v"]
  by (simp add: js_or_def first_truthy_message_def)

lemma throw_new_CobblError_converts:
  "ToString v = Some m \<Longrightarrow>
   throw_new_CobblError (Some v) c d = Inl (Cobbl \<lparr>message = m, code = c, details = d\<rparr>)"
  by (simp add: throw_new_CobblError_def new_CobblError_def)

text \<open>
  The classifier on a body that parsed to a value other than \<open>null\<close> and whose selected
  message converts to a string: the code follows the status table, and the details are
  those of the body, or for a status outside the table \<open>{status}\<close> overlaid with them.
\<close>

lemma handleErrorResponse_parsed:
  assumes "json_result r = Inr v" and "v \<noteq> JNull"
    and "ToString (first_truthy_message v) = Some m"
  shows "handleErrorResponse r =
     Inl (Cobbl \<lparr>message = m, code = code_for_status (status r),
                 details =
                   (if status r \<in> mapped_statuses then get_field ''details'' v
                    else Some (JObj (spread_into [(''status'', JNum (show_nat (status r)))]
                                       (get_field ''details'' v))))\<rparr>)"
  using assms
  by (simp add: handleErrorResponse_def selected_message throw_new_CobblError_converts
      code_for_status_def mapped_statuses_def Let_def)

text \<open>The classifier never returns normally: on every response it throws something.\<close>

lemma handleErrorResponse_throws: "\<exists>e. handleErrorResponse r = Inl e"
proof (cases "json_result r")
  case (Inl e)
  then show ?thesis
    by (simp add: handleErrorResponse_def throw_new_CobblError_def new_CobblError_def)
next
  case (Inr v)
  have t: "\<exists>e. (throw_new_CobblError x c d :: thrown + unit) = Inl e" for x c d
    by (simp add: throw_new_CobblError_def split: sum.splits)
  from Inr show ?thesis
    by (simp add: handleErrorResponse_def Let_def t)
qed

text \<open>
  C1. On a failure response whose body parses, the classifier is to throw a
  \<open>CobblError\<close> with the code of the status table, and on every input it is to throw a
  \<open>CobblError\<close>. A 500 response whose body is the JSON text \<open>null\<close> parses, and the
  classifier throws the TypeError of reading \<open>error\<close> off \<open>null\<close> instead of a
  \<open>CobblError\<close> with code \<open>SERVER_ERROR\<close>.
\<close>

theorem handleErrorResponse_null_body:
  "handleErrorResponse
     \<lparr>ok = False, status = 500, statusText = ''Internal Server Error'',
      json_result = Inr JNull\<rparr>
   = Inl (StdError (cannot_read ''null'' ''error''))"
  by (simp add: handleErrorResponse_def)

text \<open>
  C2, as stated, fails: with status 418 and server-supplied details \<open>{status: 999}\<close> the
  details of the error are \<open>{status: 999}\<close>, while merging in the status of the response
  would give \<open>status: 418\<close>.
\<close>

theorem unmapped_status_overridden_counterexample:
  "handleErrorResponse
     \<lparr>ok = False, status = 418, statusText = ''I am a teapot'',
      json_result = Inr (JObj [(''error'', JStr ''teapot''),
                               (''details'', JObj [(''status'', JNum ''999'')])])\<rparr>
   = Inl (Cobbl \<lparr>message = ''teapot'', code = API_ERROR,
                 details = Some (JObj [(''status'', JNum ''999'')])\<rparr>)
   \<and> map_of (details_with_status 418 (Some (JObj [(''status'', JNum ''999'')]))) ''status''
       = Some (JNum ''418'')"
  by (simp add: handleErrorResponse_def js_or_def throw_new_CobblError_def new_CobblError_def
      spread_into_status_status details_with_status_def show_nat_418 update_conv')

text \<open>
  C2, amended. For every failure response whose status is not in the table and whose
  body parses to a value other than \<open>null\<close> with a selected message that converts to a
  string, the classifier throws a \<open>CobblError\<close> with code \<open>API_ERROR\<close> whose details
  are the object \<open>{status}\<close> overlaid with the own properties of the server-supplied
  details. A \<open>status\<close> key is always present; it holds the status of the response
  unless the server-supplied details have a \<open>status\<close> property of their own, which
  then takes its place.
\<close>

theorem handleErrorResponse_unmapped_status:
  assumes "json_result r = Inr v" and "v \<noteq> JNull"
    and "ToString (first_truthy_message v) = Some m"
    and "status r \<notin> mapped_statuses"
  shows "handleErrorResponse r =
           Inl (Cobbl \<lparr>message = m, code = API_ERROR,
                       details = Some (JObj (spread_into
                                   [(''status'', JNum (show_nat (status r)))]
                                   (get_field ''details'' v)))\<rparr>)
         \<and> map_of (spread_into [(''status'', JNum (show_nat (status r)))]
                     (get_field ''details'' v))
             = [''status'' \<mapsto> JNum (show_nat (status r))]
                 ++ map_of (own_props (get_field ''details'' v))
         \<and> map_of (spread_into [(''status'', JNum (show_nat (status r)))]
                     (get_field ''details'' v)) ''status''
             = (case map_of (own_props (get_field ''details'' v)) ''status'' of
                  None \<Rightarrow> Some (JNum (show_nat (status r)))
                | Some x \<Rightarrow> Some x)"
proof -
  from assms(4) have c: "code_for_status (status r) = API_ERROR"
    by (simp add: code_for_status_def mapped_statuses_def)
  have m: "map_of (spread_into [(''status'', JNum (show_nat (status r)))]
                     (get_field ''details'' v))
             = [''status'' \<mapsto> JNum (show_nat (status r))]
                 ++ map_of (own_props (get_field ''details'' v))"
    by (simp add: map_of_spread_into)
  have "handleErrorResponse r =
           Inl (Cobbl \<lparr>message = m, code = API_ERROR,
                       details = Some (JObj (spread_into
                                   [(''status'', JNum (show_nat (status r)))]
                                   (get_field ''details'' v)))\<rparr>)"
    using handleErrorResponse_parsed [OF assms(1-3)] assms(4) c by simp
  moreover have "map_of (spread_into [(''status'', JNum (show_nat (status r)))]
                     (get_field ''details'' v)) ''status''
             = (case map_of (own_props (get_field ''details'' v)) ''status'' of
                  None \<Rightarrow> Some (JNum (show_nat (status r)))
                | Some x \<Rightarrow> Some x)"
    unfolding m by (simp add: map_add_def split: option.splits)
  ultimately show ?thesis using m by blast
qed

theorem handleErrorResponse_unmapped_status_witness:
  "handleErrorResponse
     \<lparr>ok = False, status = 418, statusText = ''I am a teapot'',
      json_result = Inr (JObj [(''error'', JStr ''teapot''),
                               (''details'', JObj [(''field'', JStr ''x'')])])\<rparr>
   = Inl (Cobbl \<lparr>message = ''teapot'', code = API_ERROR,
                 details = Some (JObj [(''status'', JNum ''418''), (''field'', JStr ''x'')])\<rparr>)"
  using handleErrorResponse_unmapped_status
    [of "\<lparr>ok = False, status = 418, statusText = ''I am a teapot'',
          json_result = Inr (JObj [(''error'', JStr ''teapot''),
                                   (''details'', JObj [(''field'', JStr ''x'')])])\<rparr>"
        "JObj [(''error'', JStr ''teapot''), (''details'', JObj [(''field'', JStr ''x'')])]"
        "''teapot''"]
  by (simp add: first_truthy_message_def mapped_statuses_def spread_into_status_field
      show_nat_418)

text \<open>
  C3, as stated, fails. With status 400 and body \<open>{error: "", message: "Custom"}\<close> the
  \<open>error\<close> property is present, with the empty string as its value, and the message of
  the error is \<open>Custom\<close>. With status 418 and a body without \<open>details\<close> the details
  of the error are \<open>{status: 418}\<close>, not absent.
\<close>

theorem message_and_details_counterexample:
  "handleErrorResponse
     \<lparr>ok = False, status = 400, statusText = ''Bad Request'',
      json_result = Inr (JObj [(''error'', JStr []), (''message'', JStr ''Custom'')])\<rparr>
   = Inl (Cobbl \<lparr>message = ''Custom'', code = INVALID_REQUEST, details = None\<rparr>)
   \<and> present_message (JObj [(''error'', JStr []), (''message'', JStr ''Custom'')]) = JStr []
   \<and> handleErrorResponse
     \<lparr>ok = False, status = 418, statusText = ''I am a teapot'',
      json_result = Inr (JObj [(''error'', JStr ''teapot'')])\<rparr>
   = Inl (Cobbl \<lparr>message = ''teapot'', code = API_ERROR,
                 details = Some (JObj [(''status'', JNum ''418'')])\<rparr>)
   \<and> get_field ''details'' (JObj [(''error'', JStr ''teapot'')]) = None"
  by (simp add: handleErrorResponse_def js_or_def throw_new_CobblError_def new_CobblError_def
      spread_into_status_undefined present_message_def show_nat_418)

text \<open>
  C3, amended. For every failure response whose body parses to a value other than
  \<open>null\<close>, the message of the thrown \<open>CobblError\<close> is the string form of the body's
  \<open>error\<close> property if it is truthy (present and not \<open>null\<close>, \<open>false\<close>, zero or
  the empty string), otherwise of its \<open>message\<close> property if that is truthy, otherwise
  \<open>Unknown error\<close>, provided that value converts to a string; and for a status of the
  table its details are the body's \<open>details\<close> property if present, else absent.
\<close>

theorem handleErrorResponse_message_and_details:
  assumes "json_result r = Inr v" and "v \<noteq> JNull"
    and "ToString (first_truthy_message v) = Some m"
  shows "\<exists>c. handleErrorResponse r = Inl (Cobbl c) \<and> message c = m
             \<and> (status r \<in> mapped_statuses \<longrightarrow> details c = get_field ''details'' v)"
  using handleErrorResponse_parsed [OF assms] by simp

theorem handleErrorResponse_message_and_details_witness:
  "\<exists>c. handleErrorResponse
          \<lparr>ok = False, status = 400, statusText = ''Bad Request'',
           json_result = Inr (JObj [(''error'', JStr []), (''message'', JStr ''Custom''),
                                    (''details'', JObj [(''field'', JStr ''x'')])])\<rparr>
        = Inl (Cobbl c)
      \<and> message c = ''Custom'' \<and> details c = Some (JObj [(''field'', JStr ''x'')])"
  using handleErrorResponse_message_and_details
    [of "\<lparr>ok = False, status = 400, statusText = ''Bad Request'',
           json_result = Inr (JObj [(''error'', JStr []), (''message'', JStr ''Custom''),
                                    (''details'', JObj [(''field'', JStr ''x'')])])\<rparr>"
        "JObj [(''error'', JStr []), (''message'', JStr ''Custom''),
               (''details'', JObj [(''field'', JStr ''x'')])]"
        "''Custom''"]
  by (simp add: first_truthy_message_def mapped_statuses_def)

text \<open>
  C6. For every failure response whose body fails to parse, \<open>handleErrorResponse\<close>
  throws a \<open>CobblError\<close> with code \<open>API_ERROR\<close>, message
  \<open>HTTP {status}: {statusText}\<close> and details \<open>{status}\<close>, whatever the status:
  the status table is not consulted.
\<close>

theorem handleErrorResponse_unparseable:
  "json_result r = Inl e \<Longrightarrow>
   handleErrorResponse r =
     Inl (Cobbl \<lparr>message = ''HTTP '' @ show_nat (status r) @ '': '' @ statusText r,
                 code = API_ERROR,
                 details = Some (JObj [(''status'', JNum (show_nat (status r)))])\<rparr>)"
  by (simp add: handleErrorResponse_def throw_new_CobblError_def new_CobblError_def)

theorem handleErrorResponse_unparseable_witness:
  "handleErrorResponse
     \<lparr>ok = False, status = 500, statusText = ''Internal Server Error'',
      json_result = Inl (StdError ''Invalid JSON'')\<rparr> =
   Inl (Cobbl \<lparr>message = ''HTTP 500: Internal Server Error'', code = API_ERROR,
               details = Some (JObj [(''status'', JNum ''500'')])\<rparr>)"
  using handleErrorResponse_unparseable
     [of "\<lparr>ok = False, status = 500, statusText = ''Internal Server Error'',
           json_result = Inl (StdError ''Invalid JSON'')\<rparr>" "StdError ''Invalid JSON''"]
  by (simp add: show_nat_500)

section \<open>The validators\<close>

text \<open>
  C7. \<open>validateCreateFeedback\<close> returns the reason of the first violated rule, in the
  order: \<open>runId\<close> absent or blank after trimming; \<open>helpful\<close> present and not one of
  the two literals; \<open>userFeedback\<close> present and blank after trimming; both
  \<open>helpful\<close> and \<open>userFeedback\<close> absent. It returns \<open>null\<close> exactly when no
  rule is violated.
\<close>

theorem validateCreateFeedback_first_violation:
  \<open>validateCreateFeedback f =
     (if (case runId f of None \<Rightarrow> True | Some s \<Rightarrow> trim s = [])
        then Some ''runId is required''
      else if (case helpful f of None \<Rightarrow> False
               | Some h \<Rightarrow> h \<noteq> ''helpful'' \<and> h \<noteq> ''not_helpful'')
        then Some ''helpful must be "helpful" or "not_helpful"''
      else if (case userFeedback f of None \<Rightarrow> False | Some u \<Rightarrow> trim u = [])
        then Some ''userFeedback cannot be empty''
      else if helpful f = None \<and> userFeedback f = None
        then Some ''At least one of helpful or userFeedback is required''
      else None)
   \<and> ((validateCreateFeedback f = None) =
       ((case runId f of None \<Rightarrow> False | Some s \<Rightarrow> trim s \<noteq> [])
        \<and> (case helpful f of None \<Rightarrow> True
            | Some h \<Rightarrow> h = ''helpful'' \<or> h = ''not_helpful'')
        \<and> (case userFeedback f of None \<Rightarrow> True | Some u \<Rightarrow> trim u \<noteq> [])
        \<and> (helpful f \<noteq> None \<or> userFeedback f \<noteq> None)))\<close>
  by (simp add: validateCreateFeedback_def missing_or_blank_iff member_valid_helpful
      split: option.splits)

theorem validateCreateFeedback_first_violation_witness:
  \<open>validateCreateFeedback
     \<lparr>helpful = Some ''maybe'', userFeedback = Some ''  '', runId = Some ''run-1''\<rparr>
   = Some ''helpful must be "helpful" or "not_helpful"''
   \<and> validateCreateFeedback
     \<lparr>helpful = Some ''maybe'', userFeedback = Some ''  '', runId = Some ''run-1''\<rparr> \<noteq> None\<close>
  using validateCreateFeedback_first_violation
    [of "\<lparr>helpful = Some ''maybe'', userFeedback = Some ''  '', runId = Some ''run-1''\<rparr>"]
  by (simp add: trim_def is_ws_def)

section \<open>The clients\<close>

lemma throw_new_CobblError_string:
  "throw_new_CobblError (Some (JStr s)) c d = Inl (Cobbl \<lparr>message = s, code = c, details = d\<rparr>)"
  by (simp add: throw_new_CobblError_def new_CobblError_def)

lemma validateCreateFeedback_reason_nonempty:
  "validateCreateFeedback f = Some reason \<Longrightarrow> reason \<noteq> []"
  by (auto simp: validateCreateFeedback_def split: if_splits)

lemma validateUpdateFeedback_reason_nonempty:
  "validateUpdateFeedback u = Some reason \<Longrightarrow> reason \<noteq> []"
  by (auto simp: validateUpdateFeedback_def split: if_splits)

lemma throw_new_CobblError_code:
  "(throw_new_CobblError x c d :: thrown + unit) = Inl (Cobbl e) \<Longrightarrow> code e = c"
  by (auto simp: throw_new_CobblError_def new_CobblError_def split: option.splits sum.splits)

text \<open>No \<open>CobblError\<close> that the classifier throws has the code \<open>NETWORK_ERROR\<close>.\<close>

lemma handleErrorResponse_never_network_error:
  assumes "handleErrorResponse r = Inl (Cobbl c)"
  shows "code c \<noteq> NETWORK_ERROR"
proof (cases "json_result r")
  case (Inl e)
  with assms show ?thesis
    by (auto simp: handleErrorResponse_def dest: throw_new_CobblError_code)
next
  case (Inr v)
  with assms show ?thesis
    by (auto simp: handleErrorResponse_def Let_def dest!: throw_new_CobblError_code
        split: if_splits)
qed

text \<open>
  When \<open>fetch\<close> rejects with an error that is not a \<open>CobblError\<close>, that is when
  the transport fails before a response is obtained, \<open>runPrompt\<close> throws a
  \<open>CobblError\<close> with code \<open>NETWORK_ERROR\<close>.
\<close>

lemma runPrompt_transport_failure:
  assumes "trim promptSlug \<noteq> []" and "\<And>u i. fetch u i = Inl (StdError m)"
  shows "fst (runPrompt fetch admin (Some promptSlug) input net)
     = Inl (Cobbl \<lparr>message = ''Failed to run prompt: '' @ m,
                   code = NETWORK_ERROR, details = None\<rparr>)"
proof -
  from assms(1) have "promptSlug \<noteq> []" by auto
  with assms show ?thesis
    by (simp add: runPrompt_def runPrompt_try_def admin_makeRequest_def
      throw_new_CobblError_def new_CobblError_def Let_def)
qed

text \<open>
  A failure response whose body is \<open>null\<close> also ends as \<open>NETWORK_ERROR\<close>: the
  TypeError of the classifier is wrapped by the \<open>catch\<close> clause.
\<close>

lemma runPrompt_null_error_body:
  "fst (runPrompt
          (\<lambda>u i. Inr \<lparr>ok = False, status = 500, statusText = ''Internal Server Error'',
                       json_result = Inr JNull\<rparr>)
          \<lparr>this_apiKey = ''key'', this_baseUrl = default_baseUrl\<rparr> (Some ''test'') (JObj []) [])
     = Inl (Cobbl \<lparr>message = ''Failed to run prompt: '' @ cannot_read ''null'' ''error'',
                   code = NETWORK_ERROR, details = None\<rparr>)"
  by (simp add: runPrompt_def runPrompt_try_def admin_makeRequest_def trim_def is_ws_def
      handleErrorResponse_def throw_new_CobblError_def new_CobblError_def Let_def)

text \<open>
  C4. An error with code \<open>NETWORK_ERROR\<close> is to arise only when the transport failed
  before a response was obtained. Here the server answers 200 with a body that is not
  JSON: \<open>response.json()\<close> throws a SyntaxError inside the \<open>try\<close> block, and
  \<open>runPrompt\<close> throws a \<open>CobblError\<close> with code \<open>NETWORK_ERROR\<close> although a
  response was received.
\<close>

theorem runPrompt_unparseable_success_body:
  "fst (runPrompt
          (\<lambda>u i. Inr \<lparr>ok = True, status = 200, statusText = ''OK'',
                       json_result = Inl (StdError ''Unexpected end of JSON input'')\<rparr>)
          \<lparr>this_apiKey = ''key'', this_baseUrl = default_baseUrl\<rparr> (Some ''test'') (JObj []) [])
     = Inl (Cobbl \<lparr>message = ''Failed to run prompt: Unexpected end of JSON input'',
                   code = NETWORK_ERROR, details = None\<rparr>)"
  by (simp add: runPrompt_def runPrompt_try_def admin_makeRequest_def trim_def is_ws_def
      throw_new_CobblError_string Let_def)

text \<open>
  C5. For every value thrown inside the \<open>try\<close> block of \<open>runPrompt\<close>,
  \<open>createFeedback\<close> or \<open>updateFeedback\<close>: a \<open>CobblError\<close> is re-raised
  unchanged, and any other value is wrapped once as a \<open>CobblError\<close> with code
  \<open>NETWORK_ERROR\<close> and message \<open>Failed to {operation}: \<close> followed by the message
  of the underlying error, or by \<open>Unknown error\<close> when the value is not an
  \<open>Error\<close>; the operation labels are \<open>run prompt\<close>, \<open>create feedback\<close> and
  \<open>update feedback\<close>. The requests made are those of the \<open>try\<close> block, and wrapping
  a wrapped error again changes nothing.
\<close>

theorem request_phase_errors_rethrown:
  "(trim promptSlug \<noteq> [] \<longrightarrow>
      fst (runPrompt_try fetch admin promptSlug input net) = Inl e1 \<longrightarrow>
      runPrompt fetch admin (Some promptSlug) input net =
        (Inl (wrap_transport_failure ''run prompt'' e1),
         snd (runPrompt_try fetch admin promptSlug input net)))
   \<and> (validateCreateFeedback feedback = None \<longrightarrow>
      fst (createFeedback_try fetch pub feedback net) = Inl e2 \<longrightarrow>
      createFeedback fetch pub feedback net =
        (Inl (wrap_transport_failure ''create feedback'' e2),
         snd (createFeedback_try fetch pub feedback net)))
   \<and> (trim id' \<noteq> [] \<longrightarrow> validateUpdateFeedback update = None \<longrightarrow>
      fst (updateFeedback_try fetch pub id' update net) = Inl e3 \<longrightarrow>
      updateFeedback fetch pub (Some id') update net =
        (Inl (wrap_transport_failure ''update feedback'' e3),
         snd (updateFeedback_try fetch pub id' update net)))
   \<and> wrap_transport_failure operation' (wrap_transport_failure operation e)
       = wrap_transport_failure operation e"
proof (intro conjI impI)
  assume s: "trim promptSlug \<noteq> []"
    and t: "fst (runPrompt_try fetch admin promptSlug input net) = Inl e1"
  from s have "promptSlug \<noteq> []" by auto
  with s t show "runPrompt fetch admin (Some promptSlug) input net =
        (Inl (wrap_transport_failure ''run prompt'' e1),
         snd (runPrompt_try fetch admin promptSlug input net))"
    by (cases "runPrompt_try fetch admin promptSlug input net"; cases e1)
       (simp_all add: runPrompt_def wrap_transport_failure_def throw_new_CobblError_string)
next
  assume v: "validateCreateFeedback feedback = None"
    and t: "fst (createFeedback_try fetch pub feedback net) = Inl e2"
  then show "createFeedback fetch pub feedback net =
        (Inl (wrap_transport_failure ''create feedback'' e2),
         snd (createFeedback_try fetch pub feedback net))"
    by (cases "createFeedback_try fetch pub feedback net"; cases e2)
       (simp_all add: createFeedback_def wrap_transport_failure_def throw_new_CobblError_string)
next
  assume s: "trim id' \<noteq> []" and v: "validateUpdateFeedback update = None"
    and t: "fst (updateFeedback_try fetch pub id' update net) = Inl e3"
  from s have "id' \<noteq> []" by auto
  with s v t show "updateFeedback fetch pub (Some id') update net =
        (Inl (wrap_transport_failure ''update feedback'' e3),
         snd (updateFeedback_try fetch pub id' update net))"
    by (cases "updateFeedback_try fetch pub id' update net"; cases e3)
       (simp_all add: updateFeedback_def wrap_transport_failure_def throw_new_CobblError_string)
next
  show "wrap_transport_failure operation' (wrap_transport_failure operation e)
       = wrap_transport_failure operation e"
    by (cases e) (simp_all add: wrap_transport_failure_def)
qed


theorem request_phase_errors_rethrown_witness:
  "fst (runPrompt (\<lambda>u i. Inl (StdError ''Network failure''))
          \<lparr>this_apiKey = ''key'', this_baseUrl = default_baseUrl\<rparr> (Some ''test'') (JObj []) [])
     = Inl (Cobbl \<lparr>message = ''Failed to run prompt: Network failure'',
                   code = NETWORK_ERROR, details = None\<rparr>)
   \<and> fst (createFeedback (\<lambda>u i. Inl (StdError ''Network failure''))
          \<lparr>public_baseUrl = default_baseUrl\<rparr>
          \<lparr>helpful = Some ''helpful'', userFeedback = None, runId = Some ''run-123''\<rparr> [])
     = Inl (Cobbl \<lparr>message = ''Failed to create feedback: Network failure'',
                   code = NETWORK_ERROR, details = None\<rparr>)
   \<and> fst (updateFeedback (\<lambda>u i. Inl (StdError ''Network failure''))
          \<lparr>public_baseUrl = default_baseUrl\<rparr> (Some ''fb-123'')
          \<lparr>helpful = Some ''helpful'', userFeedback = None\<rparr> [])
     = Inl (Cobbl \<lparr>message = ''Failed to update feedback: Network failure'',
                   code = NETWORK_ERROR, details = None\<rparr>)"
  using request_phase_errors_rethrown
    [where promptSlug = "''test''" and fetch = "\<lambda>u i. Inl (StdError ''Network failure'')"
       and admin = "\<lparr>this_apiKey = ''key'', this_baseUrl = default_baseUrl\<rparr>"
       and input = "JObj []" and net = "[]" and ?e1.0 = "StdError ''Network failure''"
       and pub = "\<lparr>public_baseUrl = default_baseUrl\<rparr>"
       and feedback = "\<lparr>helpful = Some ''helpful'', userFeedback = None, runId = Some ''run-123''\<rparr>"
       and ?e2.0 = "StdError ''Network failure''"
       and id' = "''fb-123''" and update = "\<lparr>helpful = Some ''helpful'', userFeedback = None\<rparr>"
       and ?e3.0 = "StdError ''Network failure''"]
  by (simp add: runPrompt_try_def createFeedback_try_def updateFeedback_try_def
      admin_makeRequest_def public_makeRequest_def feedback_response_def
      validateCreateFeedback_def validateUpdateFeedback_def missing_or_blank_def
      VALID_HELPFUL_VALUES_def trim_def is_ws_def wrap_transport_failure_def Let_def)

text \<open>
  C8. For every call whose input fails validation (a blank or absent \<open>promptSlug\<close>, a
  blank or absent \<open>id\<close>, a feedback request that \<open>validateCreateFeedback\<close> or
  \<open>validateUpdateFeedback\<close> rejects) a \<open>CobblError\<close> with code
  \<open>INVALID_REQUEST\<close> and the reason as its message is thrown, and the record of the
  calls to \<open>fetch\<close> is unchanged: no request is issued, whatever \<open>fetch\<close> would do.
\<close>

theorem invalid_input_raised_before_request:
  "((case promptSlug of None \<Rightarrow> True | Some s \<Rightarrow> trim s = []) \<longrightarrow>
      runPrompt fetch admin promptSlug input net =
        (Inl (Cobbl \<lparr>message = ''promptSlug is required'', code = INVALID_REQUEST,
                     details = None\<rparr>), net))
   \<and> ((case id1 of None \<Rightarrow> True | Some s \<Rightarrow> trim s = []) \<longrightarrow>
      updateFeedback fetch pub id1 update1 net =
        (Inl (Cobbl \<lparr>message = ''id is required'', code = INVALID_REQUEST,
                     details = None\<rparr>), net))
   \<and> (validateCreateFeedback feedback = Some reason1 \<longrightarrow>
      createFeedback fetch pub feedback net =
        (Inl (Cobbl \<lparr>message = reason1, code = INVALID_REQUEST, details = None\<rparr>), net))
   \<and> (trim id2 \<noteq> [] \<longrightarrow> validateUpdateFeedback update2 = Some reason2 \<longrightarrow>
      updateFeedback fetch pub (Some id2) update2 net =
        (Inl (Cobbl \<lparr>message = reason2, code = INVALID_REQUEST, details = None\<rparr>), net))"
proof (intro conjI impI)
  assume "case promptSlug of None \<Rightarrow> True | Some s \<Rightarrow> trim s = []"
  then show "runPrompt fetch admin promptSlug input net =
        (Inl (Cobbl \<lparr>message = ''promptSlug is required'', code = INVALID_REQUEST,
                     details = None\<rparr>), net)"
    by (simp add: runPrompt_def throw_new_CobblError_string split: option.splits)
next
  assume "case id1 of None \<Rightarrow> True | Some s \<Rightarrow> trim s = []"
  then show "updateFeedback fetch pub id1 update1 net =
        (Inl (Cobbl \<lparr>message = ''id is required'', code = INVALID_REQUEST,
                     details = None\<rparr>), net)"
    by (simp add: updateFeedback_def throw_new_CobblError_string split: option.splits)
next
  assume v: "validateCreateFeedback feedback = Some reason1"
  then have "reason1 \<noteq> []" by (rule validateCreateFeedback_reason_nonempty)
  with v show "createFeedback fetch pub feedback net =
        (Inl (Cobbl \<lparr>message = reason1, code = INVALID_REQUEST, details = None\<rparr>), net)"
    by (simp add: createFeedback_def throw_new_CobblError_string)
next
  assume i: "trim id2 \<noteq> []" and v: "validateUpdateFeedback update2 = Some reason2"
  from v have "reason2 \<noteq> []" by (rule validateUpdateFeedback_reason_nonempty)
  moreover from i have "id2 \<noteq> []" by auto
  ultimately show "updateFeedback fetch pub (Some id2) update2 net =
        (Inl (Cobbl \<lparr>message = reason2, code = INVALID_REQUEST, details = None\<rparr>), net)"
    using i v by (simp add: updateFeedback_def throw_new_CobblError_string)
qed

theorem invalid_input_raised_before_request_witness:
  "runPrompt (\<lambda>u i. Inl NonError) \<lparr>this_apiKey = ''key'', this_baseUrl = default_baseUrl\<rparr>
      (Some ''   '') (JObj []) []
     = (Inl (Cobbl \<lparr>message = ''promptSlug is required'', code = INVALID_REQUEST,
                    details = None\<rparr>), [])
   \<and> updateFeedback (\<lambda>u i. Inl NonError) \<lparr>public_baseUrl = default_baseUrl\<rparr>
        (Some []) \<lparr>helpful = Some ''helpful'', userFeedback = None\<rparr> []
     = (Inl (Cobbl \<lparr>message = ''id is required'', code = INVALID_REQUEST,
                    details = None\<rparr>), [])
   \<and> createFeedback (\<lambda>u i. Inl NonError) \<lparr>public_baseUrl = default_baseUrl\<rparr>
        \<lparr>helpful = None, userFeedback = None, runId = Some ''run-123''\<rparr> []
     = (Inl (Cobbl \<lparr>message = ''At least one of helpful or userFeedback is required'',
                    code = INVALID_REQUEST, details = None\<rparr>), [])
   \<and> updateFeedback (\<lambda>u i. Inl NonError) \<lparr>public_baseUrl = default_baseUrl\<rparr>
        (Some ''fb-1'') \<lparr>helpful = None, userFeedback = Some '' ''\<rparr> []
     = (Inl (Cobbl \<lparr>message = ''userFeedback cannot be empty'', code = INVALID_REQUEST,
                    details = None\<rparr>), [])"
  using invalid_input_raised_before_request
    [of "Some ''   ''" "\<lambda>u i. Inl NonError"
        "\<lparr>this_apiKey = ''key'', this_baseUrl = default_baseUrl\<rparr>" "JObj []" "[]"
        "Some []" "\<lparr>public_baseUrl = default_baseUrl\<rparr>"
        "\<lparr>helpful = Some ''helpful'', userFeedback = None\<rparr>"
        "\<lparr>helpful = None, userFeedback = None, runId = Some ''run-123''\<rparr>"
        "''At least one of helpful or userFeedback is required''"
        "''fb-1''" "\<lparr>helpful = None, userFeedback = Some '' ''\<rparr>"
        "''userFeedback cannot be empty''"]
  by (simp add: trim_def is_ws_def validateCreateFeedback_def validateUpdateFeedback_def
      missing_or_blank_def)

lemma snd_feedback_response: "snd (feedback_response r) = snd r"
  by (cases r) (auto simp: feedback_response_def split: sum.splits)

lemma snd_catch:
  "snd (case r of
          (Inr result, n) \<Rightarrow> (Inr result, n)
        | (Inl error, n) \<Rightarrow>
            (case error of Cobbl c \<Rightarrow> (A c, n) | StdError m \<Rightarrow> (B m, n) | NonError \<Rightarrow> (C, n)))
   = snd r"
  by (cases r) (auto split: sum.splits thrown.splits)

lemma defined_members_Cons:
  "defined_members ((k, v) # obj) =
     (case v of None \<Rightarrow> [] | Some x \<Rightarrow> [(k, x)]) @ defined_members obj"
  by (simp add: defined_members_def split: option.splits)

lemma defined_members_Nil: "defined_members [] = []"
  by (simp add: defined_members_def)

lemma snd_createFeedback_try:
  "runId feedback = Some r \<Longrightarrow>
   snd (createFeedback_try fetch pub feedback net) =
     net @ [(public_baseUrl pub @ ''/public/v1/feedback'',
             \<lparr>http_method = ''POST'',
              body = JSON_stringify (JObj
                ([(''runId'', JStr (trim r))]
                 @ (case helpful feedback of None \<Rightarrow> [] | Some h \<Rightarrow> [(''helpful'', JStr h)])
                 @ (case userFeedback feedback of None \<Rightarrow> []
                    | Some u \<Rightarrow> [(''userFeedback'', JStr (trim u))]))),
              headers = Some [(''Content-Type'', ''application/json'')]\<rparr>)]"
  by (simp add: createFeedback_try_def snd_feedback_response public_makeRequest_def Let_def
      spread_headers_def JSON_stringify_object_def defined_members_Cons defined_members_Nil
      split: option.splits)

lemma snd_updateFeedback_try:
  "snd (updateFeedback_try fetch pub i update net) =
     net @ [(public_baseUrl pub @ ''/public/v1/feedback/'' @ trim i,
             \<lparr>http_method = ''PATCH'',
              body = JSON_stringify (JObj
                ((case helpful update of None \<Rightarrow> [] | Some h \<Rightarrow> [(''helpful'', JStr h)])
                 @ (case userFeedback update of None \<Rightarrow> []
                    | Some u \<Rightarrow> [(''userFeedback'', JStr (trim u))]))),
              headers = Some [(''Content-Type'', ''application/json'')]\<rparr>)]"
  by (simp add: updateFeedback_try_def snd_feedback_response public_makeRequest_def Let_def
      spread_headers_def JSON_stringify_object_def defined_members_Cons defined_members_Nil
      split: option.splits)

lemma stringify_example_create:
  \<open>JSON_stringify (JObj [(''runId'', JStr ''run-123''), (''helpful'', JStr ''not_helpful'')])
     = ''{"runId":"run-123","helpful":"not_helpful"}''\<close>
  by code_simp

lemma stringify_example_update:
  \<open>JSON_stringify (JObj [(''userFeedback'', JStr ''Too formal'')])
     = ''{"userFeedback":"Too formal"}''\<close>
  by code_simp

text \<open>
  C9. For every feedback request that passes validation, the body that
  \<open>createFeedback\<close> sends is the serialization of an object with exactly the fields
  provided: \<open>runId\<close> trimmed, then \<open>helpful\<close> unchanged if present, then
  \<open>userFeedback\<close> trimmed if present; an absent field has no key in the body. The
  same holds for \<open>updateFeedback\<close>, without \<open>runId\<close>.
\<close>

theorem feedback_body_has_provided_fields:
  "(validateCreateFeedback feedback = None \<longrightarrow>
      (case runId feedback of
         None \<Rightarrow> False
       | Some r \<Rightarrow>
           snd (createFeedback fetch pub feedback net) =
             net @ [(public_baseUrl pub @ ''/public/v1/feedback'',
                     \<lparr>http_method = ''POST'',
                      body = JSON_stringify (JObj
                        ([(''runId'', JStr (trim r))]
                         @ (case helpful feedback of None \<Rightarrow> []
                            | Some h \<Rightarrow> [(''helpful'', JStr h)])
                         @ (case userFeedback feedback of None \<Rightarrow> []
                            | Some u \<Rightarrow> [(''userFeedback'', JStr (trim u))]))),
                      headers = Some [(''Content-Type'', ''application/json'')]\<rparr>)]))
   \<and> (trim id' \<noteq> [] \<longrightarrow> validateUpdateFeedback update = None \<longrightarrow>
      snd (updateFeedback fetch pub (Some id') update net) =
        net @ [(public_baseUrl pub @ ''/public/v1/feedback/'' @ trim id',
                \<lparr>http_method = ''PATCH'',
                 body = JSON_stringify (JObj
                   ((case helpful update of None \<Rightarrow> [] | Some h \<Rightarrow> [(''helpful'', JStr h)])
                    @ (case userFeedback update of None \<Rightarrow> []
                       | Some u \<Rightarrow> [(''userFeedback'', JStr (trim u))]))),
                 headers = Some [(''Content-Type'', ''application/json'')]\<rparr>)])"
proof (intro conjI impI)
  assume v: "validateCreateFeedback feedback = None"
  then obtain r where r: "runId feedback = Some r"
    by (cases "runId feedback") (simp_all add: validateCreateFeedback_def missing_or_blank_def)
  from v have "snd (createFeedback fetch pub feedback net)
                 = snd (createFeedback_try fetch pub feedback net)"
    by (simp add: createFeedback_def snd_catch)
  with r show "case runId feedback of
         None \<Rightarrow> False
       | Some r \<Rightarrow>
           snd (createFeedback fetch pub feedback net) =
             net @ [(public_baseUrl pub @ ''/public/v1/feedback'',
                     \<lparr>http_method = ''POST'',
                      body = JSON_stringify (JObj
                        ([(''runId'', JStr (trim r))]
                         @ (case helpful feedback of None \<Rightarrow> []
                            | Some h \<Rightarrow> [(''helpful'', JStr h)])
                         @ (case userFeedback feedback of None \<Rightarrow> []
                            | Some u \<Rightarrow> [(''userFeedback'', JStr (trim u))]))),
                      headers = Some [(''Content-Type'', ''application/json'')]\<rparr>)]"
    by (simp add: snd_createFeedback_try)
next
  assume i: "trim id' \<noteq> []" and v: "validateUpdateFeedback update = None"
  from i have "id' \<noteq> []" by auto
  with i v have "snd (updateFeedback fetch pub (Some id') update net)
                 = snd (updateFeedback_try fetch pub id' update net)"
    by (simp add: updateFeedback_def snd_catch)
  then show "snd (updateFeedback fetch pub (Some id') update net) =
        net @ [(public_baseUrl pub @ ''/public/v1/feedback/'' @ trim id',
                \<lparr>http_method = ''PATCH'',
                 body = JSON_stringify (JObj
                   ((case helpful update of None \<Rightarrow> [] | Some h \<Rightarrow> [(''helpful'', JStr h)])
                    @ (case userFeedback update of None \<Rightarrow> []
                       | Some u \<Rightarrow> [(''userFeedback'', JStr (trim u))]))),
                 headers = Some [(''Content-Type'', ''application/json'')]\<rparr>)]"
    by (simp add: snd_updateFeedback_try)
qed

theorem feedback_body_has_provided_fields_witness:
  \<open>snd (createFeedback (\<lambda>u i. Inl NonError) \<lparr>public_baseUrl = ''https://api.cobbl.ai''\<rparr>
          \<lparr>helpful = Some ''not_helpful'', userFeedback = None, runId = Some ''run-123''\<rparr> [])
     = [(''https://api.cobbl.ai/public/v1/feedback'',
         \<lparr>http_method = ''POST'', body = ''{"runId":"run-123","helpful":"not_helpful"}'',
          headers = Some [(''Content-Type'', ''application/json'')]\<rparr>)]
   \<and> snd (updateFeedback (\<lambda>u i. Inl NonError) \<lparr>public_baseUrl = ''https://api.cobbl.ai''\<rparr>
          (Some '' fb-123 '') \<lparr>helpful = None, userFeedback = Some ''  Too formal ''\<rparr> [])
     = [(''https://api.cobbl.ai/public/v1/feedback/fb-123'',
         \<lparr>http_method = ''PATCH'', body = ''{"userFeedback":"Too formal"}'',
          headers = Some [(''Content-Type'', ''application/json'')]\<rparr>)]\<close>
  using feedback_body_has_provided_fields
    [where feedback = "\<lparr>helpful = Some ''not_helpful'', userFeedback = None,
                          runId = Some ''run-123''\<rparr>"
       and fetch = "\<lambda>u i. Inl NonError" and pub = "\<lparr>public_baseUrl = ''https://api.cobbl.ai''\<rparr>"
       and net = "[]" and id' = "'' fb-123 ''"
       and update = "\<lparr>helpful = None, userFeedback = Some ''  Too formal ''\<rparr>"]
  by (simp add: validateCreateFeedback_def validateUpdateFeedback_def missing_or_blank_def
      VALID_HELPFUL_VALUES_def trim_def is_ws_def stringify_example_create
      stringify_example_update del: JSON_stringify.simps)










end
